theory Spec2Isabelle
  imports Main "HOL-Library.Word" "HOL-Library.Sublist"
begin

section \<open>The encrypted satellite datastore (internal/datastore/filestore.go)\<close>

text \<open>
  A shallow embedding of the package \<^verbatim>\<open>datastore\<close>: its package-level variables become the
  record \<open>store\<close>, everything outside the process (environment, terminal, file system,
  random source) becomes the record \<open>world\<close>, and every function takes both and returns
  them updated together with its Go result. A Go \<^verbatim>\<open>error\<close> result is a
  \<open>go_error option\<close> (\<open>None\<close> is \<^verbatim>\<open>nil\<close>), a \<^verbatim>\<open>(T, error)\<close> result is a
  \<open>go_error + T\<close>. The mutex \<^verbatim>\<open>dataFileLock\<close> and the notices printed to
  standard error are not modelled: the functions are run one at a time.
\<close>

subsection \<open>Data\<close>

type_synonym byte = "8 word"
type_synonym bytes = "byte list"

text \<open>
  A \<^verbatim>\<open>float64\<close> field is kept as its 64-bit pattern; the datastore stores and returns
  these fields and never computes with them.
\<close>

type_synonym float64 = "64 word"

text \<open>\<^verbatim>\<open>math.IsNaN\<close> and \<^verbatim>\<open>math.IsInf(f, 0)\<close> on the bit pattern: the eleven
  exponent bits are all set, and the fraction is not zero, or zero.\<close>

definition IsNaN :: "float64 \<Rightarrow> bool" where
  "IsNaN f = (take_bit 11 (drop_bit 52 f) = 2047 \<and> take_bit 52 f \<noteq> 0)"

definition IsInf :: "float64 \<Rightarrow> bool" where
  "IsInf f = (take_bit 11 (drop_bit 52 f) = 2047 \<and> take_bit 52 f = 0)"

text \<open>\<^verbatim>\<open>types.Satellite\<close> (types/satellite.go).\<close>

record Satellite =
  Name :: string
  OrbitType :: string
  Altitude :: float64
  Eccentricity :: float64
  Inclination :: float64
  PowerSystem :: string
  Communication :: string
  Size :: float64
  Weight :: float64
  Constellation :: bool
  RemoteSensing :: string
  LaunchDate :: string
  Operator :: string
  MissionObjective :: string
  Status :: string

text \<open>
  A Go error: the text \<^verbatim>\<open>err.Error()\<close> returns, and whether \<^verbatim>\<open>os.IsNotExist(err)\<close>
  holds of it. \<^verbatim>\<open>fmt.Errorf\<close> builds an error that \<^verbatim>\<open>os.IsNotExist\<close> does not
  recognise, also when it wraps one with \<^verbatim>\<open>%w\<close>.
\<close>

datatype go_error = GoError (os_IsNotExist: bool) (Error: string)

definition Errorf :: "string \<Rightarrow> go_error" where
  "Errorf msg = GoError False msg"

text \<open>\<^verbatim>\<open>strings.Contains\<close>: some suffix of \<open>s\<close> starts with \<open>substr\<close>.\<close>

fun Contains :: "string \<Rightarrow> string \<Rightarrow> bool" where
  "Contains [] substr = (substr = [])"
| "Contains (c # cs) substr = (prefix substr (c # cs) \<or> Contains cs substr)"

text \<open>
  The package \<^verbatim>\<open>internal/config\<close> lies outside this development; its constants are
  the fields of a parameter.
\<close>

record config =
  PassphraseEnvVar :: string
  DataFileName :: string
  Argon2SaltSize :: nat
  AESGCMNonceSize :: nat

text \<open>
  The functions of other packages that the datastore calls: \<^verbatim>\<open>internal/crypto\<close> (outside
  this development), \<^verbatim>\<open>encoding/json\<close> and \<^verbatim>\<open>path/filepath\<close>. They are
  parameters; a theorem that needs a property of one of them assumes it.
  \<^verbatim>\<open>crypto.Encrypt\<close> draws its nonce from the random source, so it takes the pending
  random bytes and returns the ones it left.
\<close>

record externals =
  DeriveKeyWithArgon2id :: "string \<Rightarrow> bytes \<Rightarrow> go_error + bytes"
  Encrypt :: "bytes \<Rightarrow> bytes \<Rightarrow> bytes \<Rightarrow> (go_error + bytes) \<times> bytes"
  Decrypt :: "bytes \<Rightarrow> bytes \<Rightarrow> go_error + bytes"
  MarshalIndent :: "(string \<rightharpoonup> Satellite) \<Rightarrow> go_error + bytes"
  Unmarshal :: "bytes \<Rightarrow> go_error + (string \<rightharpoonup> Satellite)"
  filepath_Dir :: "string \<Rightarrow> string"
  filepath_Join :: "string \<Rightarrow> string \<Rightarrow> string"

text \<open>
  The package-level variables. A \<^verbatim>\<open>nil\<close> slice is the empty list (the code only takes
  \<^verbatim>\<open>len(sessionKey)\<close>), a map without entries is \<open>Map.empty\<close>.
\<close>

record store =
  satellitesData :: "string \<rightharpoonup> Satellite"
  dataPath :: string
  passphraseProvided :: bool
  sessionKey :: bytes

text \<open>How \<^verbatim>\<open>ioutil.WriteFile\<close> will end: it writes everything, it cannot open the file,
  or it fails after the first \<open>n\<close> bytes.\<close>

datatype write_outcome = WriteOk | OpenFails go_error | WriteFails nat go_error

text \<open>
  The world outside the process. \<open>tty\<close> holds the results of the coming calls of
  \<^verbatim>\<open>term.ReadPassword\<close>, \<open>entropy\<close> the bytes \<^verbatim>\<open>crypto/rand\<close> will deliver. The
  \<open>_fault\<close> fields say which of the system calls the code checks will fail.
\<close>

record world =
  environ :: "string \<rightharpoonup> string"
  stdin_IsTerminal :: bool
  tty :: "(go_error + string) list"
  entropy :: bytes
  files :: "string \<rightharpoonup> bytes"
  os_Executable :: "go_error + string"
  stat_fault :: bool
  read_fault :: "go_error option"
  write_fault :: write_outcome
  rename_fault :: "go_error option"

subsection \<open>System calls\<close>

definition Getenv :: "world \<Rightarrow> string \<Rightarrow> string" where
  "Getenv w k = (case environ w k of None \<Rightarrow> [] | Some v \<Rightarrow> v)"

definition ReadPassword :: "world \<Rightarrow> (go_error + string) \<times> world" where
  "ReadPassword w =
     (case tty w of
        [] \<Rightarrow> (Inl (Errorf ''EOF''), w)
      | r # rs \<Rightarrow> (r, w\<lparr>tty := rs\<rparr>))"

text \<open>\<^verbatim>\<open>fileExists := !os.IsNotExist(statErr)\<close>: a failure of \<^verbatim>\<open>os.Stat\<close> other than
  "no such file" counts as existence.\<close>

definition fileExists :: "world \<Rightarrow> string \<Rightarrow> bool" where
  "fileExists w path = (case files w path of None \<Rightarrow> stat_fault w | Some b \<Rightarrow> True)"

definition ReadFile :: "world \<Rightarrow> string \<Rightarrow> go_error + bytes" where
  "ReadFile w path =
     (case read_fault w of
        Some e \<Rightarrow> Inl e
      | None \<Rightarrow>
          (case files w path of
             None \<Rightarrow> Inl (GoError True (''open '' @ path @ '': no such file or directory''))
           | Some b \<Rightarrow> Inr b))"

definition WriteFile :: "world \<Rightarrow> string \<Rightarrow> bytes \<Rightarrow> go_error option \<times> world" where
  "WriteFile w path b =
     (case write_fault w of
        WriteOk \<Rightarrow> (None, w\<lparr>files := (files w)(path \<mapsto> b)\<rparr>)
      | OpenFails e \<Rightarrow> (Some e, w)
      | WriteFails n e \<Rightarrow> (Some e, w\<lparr>files := (files w)(path \<mapsto> take n b)\<rparr>))"

text \<open>\<^verbatim>\<open>os.Rename\<close> replaces the target in one step or changes nothing.\<close>

definition Rename :: "world \<Rightarrow> string \<Rightarrow> string \<Rightarrow> go_error option \<times> world" where
  "Rename w old new =
     (case rename_fault w of
        Some e \<Rightarrow> (Some e, w)
      | None \<Rightarrow>
          (case files w old of
             None \<Rightarrow> (Some (GoError True (''rename '' @ old @ '' '' @ new @ '': no such file or directory'')), w)
           | Some b \<Rightarrow> (None, w\<lparr>files := (files w)(old := None, new \<mapsto> b)\<rparr>)))"

text \<open>\<^verbatim>\<open>_ = os.Remove(path)\<close>: the code drops the result, so no failure of the call is
  a branch of \<^verbatim>\<open>Save\<close>; the file is taken to be gone afterwards.\<close>

definition Remove :: "world \<Rightarrow> string \<Rightarrow> world" where
  "Remove w path = w\<lparr>files := (files w)(path := None)\<rparr>"

text \<open>\<^verbatim>\<open>io.ReadFull(rand.Reader, buf)\<close> for a buffer of \<open>n\<close> bytes: when the source
  ends early the error is \<^verbatim>\<open>io.EOF\<close> if no byte was read and
  \<^verbatim>\<open>io.ErrUnexpectedEOF\<close> otherwise.\<close>

definition ReadFull :: "world \<Rightarrow> nat \<Rightarrow> (go_error + bytes) \<times> world" where
  "ReadFull w n =
     (if length (entropy w) < n then
        (Inl (Errorf (if entropy w = [] then ''EOF'' else ''unexpected EOF'')), w\<lparr>entropy := []\<rparr>)
      else (Inr (take n (entropy w)), w\<lparr>entropy := drop n (entropy w)\<rparr>))"

subsection \<open>getPassphrase\<close>

definition getPassphrase :: "config \<Rightarrow> bool \<Rightarrow> world \<Rightarrow> (go_error + string) \<times> world" where
  "getPassphrase cfg promptForCreation w =
     (let passphrase = Getenv w (PassphraseEnvVar cfg) in
      if passphrase \<noteq> [] then (Inr passphrase, w)
      else if \<not> stdin_IsTerminal w then
        (Inl (Errorf (PassphraseEnvVar cfg @
           '' environment variable not set and not running in a terminal to prompt for passphrase'')), w)
      else
        (case ReadPassword w of
           (Inl err, w1) \<Rightarrow> (Inl (Errorf (''failed to read passphrase: '' @ Error err)), w1)
         | (Inr passphrase, w1) \<Rightarrow>
             if promptForCreation \<and> passphrase \<noteq> [] then
               (case ReadPassword w1 of
                  (Inl err, w2) \<Rightarrow>
                    (Inl (Errorf (''failed to read passphrase confirmation: '' @ Error err)), w2)
                | (Inr confirm, w2) \<Rightarrow>
                    if passphrase \<noteq> confirm then (Inl (Errorf ''passphrases do not match''), w2)
                    else (Inr passphrase, w2))
             else (Inr passphrase, w1)))"

subsection \<open>Session state\<close>

definition IsUnlocked :: "store \<Rightarrow> bool" where
  "IsUnlocked s = (passphraseProvided s \<and> length (sessionKey s) > 0)"

definition GetSatellites :: "config \<Rightarrow> store \<Rightarrow> go_error + (string \<rightharpoonup> Satellite)" where
  "GetSatellites cfg s =
     (if \<not> IsUnlocked s then
        Inl (Errorf (''datastore is locked or not initialized. Please set '' @
               PassphraseEnvVar cfg @ '' or provide passphrase.''))
      else Inr (satellitesData s))"

definition AddSatellite :: "store \<Rightarrow> Satellite \<Rightarrow> go_error option \<times> store" where
  "AddSatellite s sat =
     (if \<not> IsUnlocked s then
        (Some (Errorf ''datastore is locked. Cannot add/update satellite.''), s)
      else (None, s\<lparr>satellitesData := (satellitesData s)(Name sat \<mapsto> sat)\<rparr>))"

definition DeleteSatellite :: "store \<Rightarrow> string \<Rightarrow> go_error option \<times> store" where
  "DeleteSatellite s name =
     (if \<not> IsUnlocked s then
        (Some (Errorf ''datastore is locked. Cannot delete satellite.''), s)
      else if satellitesData s name = None then
        (Some (Errorf (''satellite '' @ [CHR 0x27] @ name @ [CHR 0x27] @ '' not found for deletion'')), s)
      else (None, s\<lparr>satellitesData := (satellitesData s)(name := None)\<rparr>))"

subsection \<open>load\<close>

text \<open>\<^verbatim>\<open>passphraseProvided = false; sessionKey = nil\<close>, the pair of assignments on every
  failing path of \<^verbatim>\<open>load\<close> and in \<^verbatim>\<open>Init\<close>.\<close>

definition lock :: "store \<Rightarrow> store" where
  "lock s = s\<lparr>passphraseProvided := False, sessionKey := []\<rparr>"

definition load :: "config \<Rightarrow> externals \<Rightarrow> store \<Rightarrow> world \<Rightarrow> go_error option \<times> store \<times> world" where
  "load cfg ext s w =
     (let exists = fileExists w (dataPath s) in
      case getPassphrase cfg (\<not> exists) w of
        (Inl passErr, w1) \<Rightarrow>
          if exists then
            (Some (Errorf (''passphrase acquisition failed for existing datastore: '' @ Error passErr)),
             lock s, w1)
          else (None, (lock s)\<lparr>satellitesData := Map.empty\<rparr>, w1)
      | (Inr currentPassphrase, w1) \<Rightarrow>
          if currentPassphrase = [] then
            if exists then
              (Some (Errorf (''passphrase not provided for existing datastore '' @
                       [CHR 0x27] @ dataPath s @ [CHR 0x27])),
               lock s, w1)
            else (None, (lock s)\<lparr>satellitesData := Map.empty\<rparr>, w1)
          else if \<not> exists then
            (None, s\<lparr>passphraseProvided := True, satellitesData := Map.empty, sessionKey := []\<rparr>, w1)
          else
            (case ReadFile w1 (dataPath s) of
               Inl err \<Rightarrow>
                 (Some (Errorf (''failed to read encrypted datastore '' @ dataPath s @ '': '' @ Error err)),
                  lock s, w1)
             | Inr encryptedFileBytes \<Rightarrow>
                 if length encryptedFileBytes < Argon2SaltSize cfg + AESGCMNonceSize cfg then
                   (Some (Errorf
                      ''encrypted datastore file is too short or corrupted (salt+nonce sections missing)''),
                    lock s, w1)
                 else
                   (let salt = take (Argon2SaltSize cfg) encryptedFileBytes;
                        nonceAndCiphertext = drop (Argon2SaltSize cfg) encryptedFileBytes
                    in case DeriveKeyWithArgon2id ext currentPassphrase salt of
                         Inl keyErr \<Rightarrow>
                           (Some (Errorf (''key derivation failed during load: '' @ Error keyErr)),
                            lock s, w1)
                       | Inr key \<Rightarrow>
                           (case Decrypt ext nonceAndCiphertext key of
                              Inl err \<Rightarrow> (Some err, lock s, w1)
                            | Inr plaintext \<Rightarrow>
                                (case Unmarshal ext plaintext of
                                   Inl err \<Rightarrow>
                                     (Some (Errorf (''failed to unmarshal decrypted satellite data: '' @
                                              Error err @ '' (data may be corrupt)'')),
                                      lock s, w1)
                                 | Inr tempSatellites \<Rightarrow>
                                     (None,
                                      s\<lparr>passphraseProvided := True, sessionKey := key,
                                        satellitesData := tempSatellites\<rparr>,
                                      w1))))))"

subsection \<open>Save\<close>

text \<open>
  The first part of \<^verbatim>\<open>Save\<close> (up to the call of \<^verbatim>\<open>json.MarshalIndent\<close>) settles the
  passphrase of this save: a store that is not marked asks for one, with confirmation,
  and is marked when a non-empty one comes back; then the passphrase is read from the
  environment again, or asked for once more when the environment has none. When
  \<^verbatim>\<open>passErr\<close> is \<^verbatim>\<open>nil\<close> (an empty passphrase came back without an error),
  \<^verbatim>\<open>%w\<close> prints \<^verbatim>\<open>%!w(<nil>)\<close>.
\<close>

definition Save_passphrase :: "config \<Rightarrow> store \<Rightarrow> world \<Rightarrow> (go_error + string) \<times> store \<times> world" where
  "Save_passphrase cfg s w =
     (case (if \<not> passphraseProvided s then
              (case getPassphrase cfg True w of
                 (Inl passErr, w1) \<Rightarrow>
                   (Some (Errorf (''passphrase is required to save encrypted datastore: '' @
                            Error passErr @ '' (or set '' @ PassphraseEnvVar cfg @ '')'')), s, w1)
               | (Inr currentPassphrase, w1) \<Rightarrow>
                   if currentPassphrase = [] then
                     (Some (Errorf (''passphrase is required to save encrypted datastore: '' @
                              ''%!w(<nil>)'' @ '' (or set '' @ PassphraseEnvVar cfg @ '')'')), s, w1)
                   else (None, s\<lparr>passphraseProvided := True\<rparr>, w1))
            else (None, s, w)) of
        (Some err, s1, w1) \<Rightarrow> (Inl err, s1, w1)
      | (None, s1, w1) \<Rightarrow>
          if Getenv w1 (PassphraseEnvVar cfg) = [] then
            (case getPassphrase cfg False w1 of
               (Inl errPass, w2) \<Rightarrow>
                 (Inl (Errorf (''passphrase re-confirmation failed for saving: '' @ Error errPass)), s1, w2)
             | (Inr currentPassphrase, w2) \<Rightarrow>
                 if currentPassphrase = [] then
                   (Inl (Errorf (''passphrase re-confirmation failed for saving: '' @ ''%!w(<nil>)'')), s1, w2)
                 else (Inr currentPassphrase, s1, w2))
          else (Inr (Getenv w1 (PassphraseEnvVar cfg)), s1, w1))"

text \<open>The whole of \<^verbatim>\<open>Save\<close>: serialise, draw a salt, derive the key, encrypt, write the
  temporary file and rename it onto the datastore file.\<close>

definition Save :: "config \<Rightarrow> externals \<Rightarrow> store \<Rightarrow> world \<Rightarrow> go_error option \<times> store \<times> world" where
  "Save cfg ext s w =
     (case Save_passphrase cfg s w of
        (Inl err, s1, w2) \<Rightarrow> (Some err, s1, w2)
      | (Inr currentPassphrase, s1, w2) \<Rightarrow>
          (case MarshalIndent ext (satellitesData s1) of
             Inl err \<Rightarrow>
               (Some (Errorf (''failed to marshal satellite data for encryption: '' @ Error err)), s1, w2)
           | Inr plaintext \<Rightarrow>
               (case ReadFull w2 (Argon2SaltSize cfg) of
                  (Inl err, w3) \<Rightarrow>
                    (Some (Errorf (''failed to generate salt: '' @ Error err)), s1, w3)
                | (Inr salt, w3) \<Rightarrow>
                    (case DeriveKeyWithArgon2id ext currentPassphrase salt of
                       Inl keyErr \<Rightarrow>
                         (Some (Errorf (''key derivation for save failed: '' @ Error keyErr)), s1, w3)
                     | Inr keyForSave \<Rightarrow>
                         (let s2 = s1\<lparr>sessionKey := keyForSave\<rparr> in
                          case Encrypt ext plaintext keyForSave (entropy w3) of
                            (Inl err, rest) \<Rightarrow>
                              (Some (Errorf (''encryption failed: '' @ Error err)), s2,
                               w3\<lparr>entropy := rest\<rparr>)
                          | (Inr nonceAndCiphertext, rest) \<Rightarrow>
                              (let w4 = w3\<lparr>entropy := rest\<rparr>;
                                   encryptedFileBytes = salt @ nonceAndCiphertext;
                                   tempDataPath = dataPath s2 @ ''.tmp''
                               in case WriteFile w4 tempDataPath encryptedFileBytes of
                                    (Some err, w5) \<Rightarrow>
                                      (Some (Errorf (''failed to write temporary encrypted datastore '' @
                                               tempDataPath @ '': '' @ Error err)), s2, w5)
                                  | (None, w5) \<Rightarrow>
                                      (case Rename w5 tempDataPath (dataPath s2) of
                                         (Some err, w6) \<Rightarrow>
                                           (Some (Errorf (''failed to commit encrypted datastore from '' @
                                                    tempDataPath @ '' to '' @ dataPath s2 @ '': '' @
                                                    Error err)),
                                            s2, Remove w6 tempDataPath)
                                       | (None, w6) \<Rightarrow> (None, s2, w6))))))))"

subsection \<open>Init, and its caller in cmd/satcli/main.go\<close>

definition Init :: "config \<Rightarrow> externals \<Rightarrow> store \<Rightarrow> world \<Rightarrow> go_error option \<times> store \<times> world" where
  "Init cfg ext s w =
     (case os_Executable w of
        Inl err \<Rightarrow> (Some (Errorf (''failed to get executable path: '' @ Error err)), s, w)
      | Inr exePath \<Rightarrow>
          (let exeDir = filepath_Dir ext exePath;
               s0 = s\<lparr>dataPath := filepath_Join ext exeDir (DataFileName cfg)\<rparr>
           in case load cfg ext s0 w of
                (None, s1, w1) \<Rightarrow> (None, s1, w1)
              | (Some err, s1, w1) \<Rightarrow>
                  if os_IsNotExist err then (None, lock s1, w1)
                  else if Contains (Error err) ''passphrase'' \<or> Contains (Error err) ''decrypt'' then
                    (None, lock s1, w1)
                  else (Some err, s1, w1)))"

text \<open>
  \<^verbatim>\<open>rootCmd.PersistentPreRunE\<close>: \<open>exempt\<close> is its first test (the command is
  \<^verbatim>\<open>help\<close>, \<^verbatim>\<open>version\<close> or a completion), every other command initialises the
  datastore before it runs. An error returned here ends the process with status 1.
\<close>

definition PersistentPreRunE ::
    "bool \<Rightarrow> config \<Rightarrow> externals \<Rightarrow> store \<Rightarrow> world \<Rightarrow> go_error option \<times> store \<times> world" where
  "PersistentPreRunE exempt cfg ext s w =
     (if exempt then (None, s, w)
      else
        (case Init cfg ext s w of
           (None, s1, w1) \<Rightarrow> (None, s1, w1)
         | (Some err, s1, w1) \<Rightarrow>
             if \<not> Contains (Error err) ''passphrase'' \<and> \<not> Contains (Error err) ''decrypt'' \<and>
                \<not> os_IsNotExist err
             then (Some err, s1, w1)
             else (None, s1, w1)))"

subsection \<open>Concrete inputs\<close>

text \<open>
  The inputs at which the theorems below are instantiated. \<open>test_externals\<close> puts small
  stand-ins in the place of Argon2id, AES-GCM, the JSON codec and \<^verbatim>\<open>path/filepath\<close>:
  the key is the salt behind the passphrase's length, a ciphertext is nonce, key and
  plaintext in a row, and the codec knows the empty collection and the one of \<open>sat1\<close>.
  Like \<^verbatim>\<open>encoding/json\<close>, the codec refuses a record with a \<^verbatim>\<open>float64\<close> field that
  is NaN or infinite, with the error text of \<^verbatim>\<open>json.UnsupportedValueError\<close> for the
  first such field.
\<close>

definition unsupported_floats :: "Satellite \<Rightarrow> float64 list" where
  "unsupported_floats r =
     filter (\<lambda>f. IsNaN f \<or> IsInf f)
       [Altitude r, Eccentricity r, Inclination r, Size r, Weight r]"

definition FormatFloat :: "float64 \<Rightarrow> string" where
  "FormatFloat f = (if IsNaN f then ''NaN'' else if bit f 63 then ''-Inf'' else ''+Inf'')"

definition test_config :: config where
  "test_config =
     \<lparr>PassphraseEnvVar = ''SATCLI_PASSPHRASE'', DataFileName = ''satellites.enc'',
      Argon2SaltSize = 16, AESGCMNonceSize = 12\<rparr>"

definition sat1 :: Satellite where
  "sat1 =
     \<lparr>Name = ''SAT-1'', OrbitType = ''LEO'', Altitude = 0, Eccentricity = 0, Inclination = 0,
      PowerSystem = [], Communication = [], Size = 0, Weight = 0, Constellation = False,
      RemoteSensing = [], LaunchDate = ''2025-01-01'', Operator = ''ESA'', MissionObjective = [],
      Status = ''active''\<rparr>"

definition test_externals :: externals where
  "test_externals =
     \<lparr>DeriveKeyWithArgon2id = (\<lambda>passphrase salt. Inr (of_nat (length passphrase) # salt)),
      Encrypt = (\<lambda>plaintext key rnd.
        if length rnd < 12 then (Inl (Errorf ''failed to generate nonce''), [])
        else (Inr (take 12 rnd @ key @ plaintext), drop 12 rnd)),
      Decrypt = (\<lambda>nonceAndCiphertext key.
        if length nonceAndCiphertext < 12 then Inl (Errorf ''ciphertext too short'')
        else if prefix key (drop 12 nonceAndCiphertext)
          then Inr (drop (length key) (drop 12 nonceAndCiphertext))
          else Inl (Errorf ''decryption failed (wrong passphrase or corrupted data)'')),
      MarshalIndent = (\<lambda>m.
        case m ''SAT-1'' of
          None \<Rightarrow> Inr [0]
        | Some r \<Rightarrow>
            (case unsupported_floats r of
               f # fs \<Rightarrow> Inl (Errorf (''json: unsupported value: '' @ FormatFloat f))
             | [] \<Rightarrow> if r = sat1 then Inr [1] else Inl (Errorf ''json: unsupported type''))),
      Unmarshal = (\<lambda>b.
        if b = [0] then Inr Map.empty
        else if b = [1] then Inr [''SAT-1'' \<mapsto> sat1]
        else Inl (Errorf ''invalid character'')),
      filepath_Dir = (\<lambda>path. rev (drop 1 (dropWhile (\<lambda>c. c \<noteq> CHR ''/'') (rev path)))),
      filepath_Join = (\<lambda>dir name. dir @ ''/'' @ name)\<rparr>"

text \<open>The package-level variables when the process starts.\<close>

definition initial_store :: store where
  "initial_store =
     \<lparr>satellitesData = Map.empty, dataPath = [], passphraseProvided = False, sessionKey = []\<rparr>"

text \<open>A store after \<^verbatim>\<open>Init\<close> has set the path, and one that holds a key.\<close>

definition locked_store :: store where
  "locked_store = initial_store\<lparr>dataPath := ''/opt/satcli/satellites.enc''\<rparr>"

definition unlocked_store :: store where
  "unlocked_store =
     locked_store\<lparr>passphraseProvided := True, sessionKey := [7, 7, 7],
       satellitesData := [''SAT-1'' \<mapsto> sat1]\<rparr>"

text \<open>An unlocked store whose one record has a NaN altitude.\<close>

definition nan_store :: store where
  "nan_store =
     unlocked_store\<lparr>satellitesData := [''SAT-1'' \<mapsto> sat1\<lparr>Altitude := 0x7FF8000000000000\<rparr>]\<rparr>"

text \<open>A first run: the passphrase is in the environment and no datastore file exists.\<close>

definition fresh_world :: world where
  "fresh_world =
     \<lparr>environ = [''SATCLI_PASSPHRASE'' \<mapsto> ''correct-horse''], stdin_IsTerminal = False,
      tty = [],
      entropy = [1, 2, 3, 4, 5, 6, 7, 8, 9, 10, 11, 12, 13, 14, 15, 16,
                 17, 18, 19, 20, 21, 22, 23, 24, 25, 26, 27, 28, 29, 30],
      files = Map.empty, os_Executable = Inr ''/opt/satcli/satcli'', stat_fault = False,
      read_fault = None, write_fault = WriteOk, rename_fault = None\<rparr>"

text \<open>The same with a datastore file of \<open>b\<close>.\<close>

definition world_with_file :: "bytes \<Rightarrow> world" where
  "world_with_file b = fresh_world\<lparr>files := [''/opt/satcli/satellites.enc'' \<mapsto> b]\<rparr>"

text \<open>A file that decrypts under \<open>correct-horse\<close> to a payload the codec rejects:
  salt, nonce, the key of that salt, and the payload \<open>[9]\<close>.\<close>

definition undecodable_file :: bytes where
  "undecodable_file =
     [1, 2, 3, 4, 5, 6, 7, 8, 9, 10, 11, 12, 13, 14, 15, 16] @
     [17, 18, 19, 20, 21, 22, 23, 24, 25, 26, 27, 28] @
     [13, 1, 2, 3, 4, 5, 6, 7, 8, 9, 10, 11, 12, 13, 14, 15, 16] @ [9]"

section \<open>Properties\<close>

lemma unsupported_floats_sat1: "unsupported_floats sat1 = []"
  by (simp add: unsupported_floats_def sat1_def IsNaN_def IsInf_def)

lemma unsupported_floats_NaN:
  "unsupported_floats (sat1\<lparr>Altitude := 0x7FF8000000000000\<rparr>) = [0x7FF8000000000000]"
  "FormatFloat 0x7FF8000000000000 = ''NaN''"
  by (simp_all add: unsupported_floats_def FormatFloat_def sat1_def IsNaN_def IsInf_def)

lemmas fixtures = test_config_def test_externals_def initial_store_def locked_store_def
  unlocked_store_def fresh_world_def world_with_file_def unsupported_floats_sat1

lemmas syscalls = Getenv_def ReadPassword_def fileExists_def ReadFile_def WriteFile_def
  Rename_def Remove_def ReadFull_def

subsection \<open>Auxiliary facts\<close>

lemma Contains_prefix: "prefix sub s \<Longrightarrow> Contains s sub"
  by (cases s) auto

lemma Contains_append: "Contains (a @ sub @ b) sub"
  by (induction a) (simp_all add: Contains_prefix)

text \<open>Acquiring the passphrase consumes terminal input and touches nothing else.\<close>

lemma getPassphrase_world:
  "getPassphrase cfg c w = (r, w1) \<Longrightarrow> \<exists>t. w1 = w\<lparr>tty := t\<rparr>"
  unfolding getPassphrase_def ReadPassword_def Let_def
  by (auto split: if_splits prod.splits sum.splits list.splits intro: exI[of _ "tty w"])

lemma lock_locked: "\<not> passphraseProvided (lock s) \<and> sessionKey (lock s) = []"
  by (simp add: lock_def)

lemma getPassphrase_frame:
  "getPassphrase cfg c w = (r, w1) \<Longrightarrow>
     environ w1 = environ w \<and> stdin_IsTerminal w1 = stdin_IsTerminal w \<and> entropy w1 = entropy w \<and>
     files w1 = files w \<and> os_Executable w1 = os_Executable w \<and> stat_fault w1 = stat_fault w \<and>
     read_fault w1 = read_fault w \<and> write_fault w1 = write_fault w \<and> rename_fault w1 = rename_fault w"
  by (drule getPassphrase_world) auto

lemma getPassphrase_env:
  "Getenv w (PassphraseEnvVar cfg) = p \<Longrightarrow> p \<noteq> [] \<Longrightarrow> getPassphrase cfg c w = (Inr p, w)"
  by (simp add: getPassphrase_def)

lemma getPassphrase_test:
  "getPassphrase test_config c (world_with_file b) = (Inr ''correct-horse'', world_with_file b)"
  by (rule getPassphrase_env) (simp_all add: Getenv_def fixtures)

lemma test_dataPath:
  "initial_store\<lparr>dataPath := filepath_Join test_externals
      (filepath_Dir test_externals ''/opt/satcli/satcli'') (DataFileName test_config)\<rparr> = locked_store"
  by (simp add: fixtures)

lemma lock_locked_store: "lock locked_store = locked_store"
  by (simp add: lock_def fixtures)

lemma lock_lock: "lock (lock s) = lock s"
  by (simp add: lock_def)

lemma load_too_short:
  assumes "files w (dataPath s) = Some b"
    and "length b < Argon2SaltSize cfg + AESGCMNonceSize cfg"
    and "read_fault w = None"
    and "getPassphrase cfg False w = (Inr p, w1)" and "p \<noteq> []"
  shows "load cfg ext s w =
      (Some (Errorf ''encrypted datastore file is too short or corrupted (salt+nonce sections missing)''),
       lock s, w1)"
proof -
  from getPassphrase_frame [OF assms(4)] assms
  have "files w1 (dataPath s) = Some b" "read_fault w1 = None"
    by simp_all
  with assms show ?thesis
    by (simp add: load_def fileExists_def ReadFile_def)
qed

lemma load_unmarshal_failure:
  assumes "files w (dataPath s) = Some b"
    and "Argon2SaltSize cfg + AESGCMNonceSize cfg \<le> length b"
    and "read_fault w = None"
    and "getPassphrase cfg False w = (Inr p, w1)" and "p \<noteq> []"
    and "DeriveKeyWithArgon2id ext p (take (Argon2SaltSize cfg) b) = Inr key"
    and "Decrypt ext (drop (Argon2SaltSize cfg) b) key = Inr plaintext"
    and "Unmarshal ext plaintext = Inl err"
  shows "load cfg ext s w =
      (Some (Errorf (''failed to unmarshal decrypted satellite data: '' @ Error err @
               '' (data may be corrupt)'')),
       lock s, w1)"
proof -
  from getPassphrase_frame [OF assms(4)] assms
  have "files w1 (dataPath s) = Some b" "read_fault w1 = None"
    by simp_all
  with assms show ?thesis
    by (simp add: load_def fileExists_def ReadFile_def)
qed

lemma too_short_message:
  "\<not> Contains ''encrypted datastore file is too short or corrupted (salt+nonce sections missing)'' ''passphrase''"
  "\<not> Contains ''encrypted datastore file is too short or corrupted (salt+nonce sections missing)'' ''decrypt''"
  by simp_all

lemma unmarshal_message:
  "Contains (''failed to unmarshal decrypted satellite data: '' @ x) ''decrypt''"
  using Contains_append [of "''failed to unmarshal ''" "''decrypt''" "''ed satellite data: '' @ x"]
  by simp

text \<open>The passphrase part of \<^verbatim>\<open>Save\<close> reads the environment and the terminal only.\<close>

lemma getPassphrase_rename_fault:
  "getPassphrase cfg c (w\<lparr>rename_fault := x\<rparr>) =
     (case getPassphrase cfg c w of (r, w1) \<Rightarrow> (r, w1\<lparr>rename_fault := x\<rparr>))"
  by (simp add: getPassphrase_def ReadPassword_def Getenv_def Let_def
        split: list.splits sum.splits prod.splits)

lemma Save_passphrase_rename_fault:
  "Save_passphrase cfg s (w\<lparr>rename_fault := x\<rparr>) =
     (case Save_passphrase cfg s w of (r, s1, w2) \<Rightarrow> (r, s1, w2\<lparr>rename_fault := x\<rparr>))"
  by (simp add: Save_passphrase_def getPassphrase_rename_fault Getenv_def
        split: sum.splits prod.splits option.splits)

lemma Save_passphrase_frame:
  assumes "Save_passphrase cfg s w = (r, s1, w2)"
  shows "(\<exists>t. w2 = w\<lparr>tty := t\<rparr>) \<and> satellitesData s1 = satellitesData s \<and>
         dataPath s1 = dataPath s \<and> sessionKey s1 = sessionKey s"
  using assms unfolding Save_passphrase_def
  by (auto split: if_splits sum.splits prod.splits option.splits
      dest!: getPassphrase_world intro: exI [of _ "tty w"])

lemma Save_passphrase_env:
  "Getenv w (PassphraseEnvVar cfg) = P \<Longrightarrow> P \<noteq> [] \<Longrightarrow>
     Save_passphrase cfg s w = (Inr P, s\<lparr>passphraseProvided := True\<rparr>, w)"
  by (simp add: Save_passphrase_def getPassphrase_env)

lemma Save_passphrase_ok:
  assumes "Save_passphrase cfg s w = (Inr P, s1, w2)"
  shows "P \<noteq> [] \<and> s1 = s\<lparr>passphraseProvided := True\<rparr> \<and>
         getPassphrase cfg False (if passphraseProvided s then w else snd (getPassphrase cfg True w)) =
           (Inr P, w2)"
proof -
  have env: "getPassphrase cfg False v = (Inr (Getenv v (PassphraseEnvVar cfg)), v)"
    if "Getenv v (PassphraseEnvVar cfg) \<noteq> []" for v
    using that by (simp add: getPassphrase_env)
  show ?thesis
    using assms unfolding Save_passphrase_def
    by (auto simp: env split: if_splits sum.splits prod.splits option.splits)
qed

lemma Save_passphrase_sessionKey:
  "Save_passphrase cfg (s\<lparr>sessionKey := k\<rparr>) w =
     (case Save_passphrase cfg s w of (r, s1, w2) \<Rightarrow> (r, s1\<lparr>sessionKey := k\<rparr>, w2))"
  by (simp add: Save_passphrase_def split: sum.splits prod.splits option.splits)

lemma Save_test_ok:
  "fst (Save test_config test_externals unlocked_store
          (world_with_file [1, 2, 3]\<lparr>rename_fault := None\<rparr>)) = None"
  by (simp add: Save_def Save_passphrase_def getPassphrase_def syscalls fixtures Let_def)

lemma IsUnlocked_locked_store: "\<not> IsUnlocked locked_store"
  by (simp add: IsUnlocked_def fixtures)

lemma IsUnlocked_unlocked_store: "IsUnlocked unlocked_store"
  by (simp add: IsUnlocked_def fixtures)

subsection \<open>Session state\<close>

text \<open>
  C7. While the store is not unlocked, \<^verbatim>\<open>GetSatellites\<close>, \<^verbatim>\<open>AddSatellite\<close> and
  \<^verbatim>\<open>DeleteSatellite\<close> each return their "datastore is locked" error and leave the store
  as it is. Once it is unlocked, \<^verbatim>\<open>GetSatellites\<close> returns the collection,
  \<^verbatim>\<open>AddSatellite\<close> returns no error and has stored the record under its name, and
  \<^verbatim>\<open>DeleteSatellite\<close> of a name that is present returns no error and has removed the
  entry of that name.
\<close>

theorem locked_state_gating:
  "(\<not> IsUnlocked s \<longrightarrow>
      GetSatellites cfg s =
        Inl (Errorf (''datastore is locked or not initialized. Please set '' @
               PassphraseEnvVar cfg @ '' or provide passphrase.'')) \<and>
      AddSatellite s sat = (Some (Errorf ''datastore is locked. Cannot add/update satellite.''), s) \<and>
      DeleteSatellite s name = (Some (Errorf ''datastore is locked. Cannot delete satellite.''), s)) \<and>
   (IsUnlocked s \<longrightarrow>
      GetSatellites cfg s = Inr (satellitesData s) \<and>
      AddSatellite s sat = (None, s\<lparr>satellitesData := (satellitesData s)(Name sat \<mapsto> sat)\<rparr>) \<and>
      (satellitesData s name \<noteq> None \<longrightarrow>
         DeleteSatellite s name = (None, s\<lparr>satellitesData := (satellitesData s)(name := None)\<rparr>)))"
  by (simp add: GetSatellites_def AddSatellite_def DeleteSatellite_def)

theorem locked_state_gating_witness:
  "GetSatellites test_config locked_store =
     Inl (Errorf ''datastore is locked or not initialized. Please set SATCLI_PASSPHRASE or provide passphrase.'') \<and>
   fst (AddSatellite locked_store sat1) = Some (Errorf ''datastore is locked. Cannot add/update satellite.'') \<and>
   fst (DeleteSatellite locked_store ''SAT-1'') = Some (Errorf ''datastore is locked. Cannot delete satellite.'') \<and>
   GetSatellites test_config unlocked_store = Inr [''SAT-1'' \<mapsto> sat1] \<and>
   AddSatellite unlocked_store (sat1\<lparr>Name := ''SAT-2''\<rparr>) =
     (None, unlocked_store\<lparr>satellitesData :=
        [''SAT-1'' \<mapsto> sat1, ''SAT-2'' \<mapsto> sat1\<lparr>Name := ''SAT-2''\<rparr>]\<rparr>) \<and>
   DeleteSatellite unlocked_store ''SAT-1'' = (None, unlocked_store\<lparr>satellitesData := Map.empty\<rparr>)"
proof -
  have present: "satellitesData unlocked_store ''SAT-1'' \<noteq> None"
    by (simp add: fixtures)
  have data: "satellitesData unlocked_store = [''SAT-1'' \<mapsto> sat1]"
    by (simp add: fixtures)
  have env: "PassphraseEnvVar test_config = ''SATCLI_PASSPHRASE''"
    by (simp add: fixtures)
  from locked_state_gating [of locked_store test_config sat1 "''SAT-1''"]
    locked_state_gating [of unlocked_store test_config "sat1\<lparr>Name := ''SAT-2''\<rparr>" "''SAT-1''"]
    IsUnlocked_locked_store IsUnlocked_unlocked_store present
  show ?thesis
    by (simp add: data env)
qed

text \<open>
  C8. In an unlocked store, \<^verbatim>\<open>DeleteSatellite\<close> of a name that is not in the collection
  returns the "not found for deletion" error and the store, so also the collection, is
  unchanged.
\<close>

theorem delete_absent_name:
  "IsUnlocked s \<Longrightarrow> satellitesData s name = None \<Longrightarrow>
     DeleteSatellite s name =
       (Some (Errorf (''satellite '' @ [CHR 0x27] @ name @ [CHR 0x27] @ '' not found for deletion'')), s)"
  by (simp add: DeleteSatellite_def)

theorem delete_absent_name_witness:
  "IsUnlocked unlocked_store \<and> satellitesData unlocked_store ''SAT-2'' = None \<and>
   DeleteSatellite unlocked_store ''SAT-2'' =
     (Some (Errorf (''satellite '' @ [CHR 0x27] @ ''SAT-2'' @ [CHR 0x27] @ '' not found for deletion'')),
      unlocked_store)"
proof -
  have absent: "satellitesData unlocked_store ''SAT-2'' = None"
    by (simp add: fixtures)
  from delete_absent_name [OF IsUnlocked_unlocked_store absent] IsUnlocked_unlocked_store absent
  show ?thesis
    by simp
qed

text \<open>
  C9. In an unlocked store, \<^verbatim>\<open>AddSatellite\<close> of a record \<open>r\<close> returns no error and
  stores \<open>r\<close> under \<open>Name r\<close>, whatever was stored under that name before; the entry of
  every other name is unchanged, and the names of the collection are the old ones and
  \<open>Name r\<close> (a map holds one record per name).
\<close>

theorem put_is_upsert:
  "IsUnlocked s \<Longrightarrow>
     AddSatellite s r = (None, s\<lparr>satellitesData := (satellitesData s)(Name r \<mapsto> r)\<rparr>) \<and>
     satellitesData (snd (AddSatellite s r)) (Name r) = Some r \<and>
     (\<forall>n. n \<noteq> Name r \<longrightarrow> satellitesData (snd (AddSatellite s r)) n = satellitesData s n) \<and>
     dom (satellitesData (snd (AddSatellite s r))) = insert (Name r) (dom (satellitesData s))"
  by (simp add: AddSatellite_def)

theorem put_is_upsert_witness:
  "IsUnlocked unlocked_store \<and>
   satellitesData unlocked_store ''SAT-1'' = Some sat1 \<and>
   fst (AddSatellite unlocked_store (sat1\<lparr>Status := ''retired''\<rparr>)) = None \<and>
   satellitesData (snd (AddSatellite unlocked_store (sat1\<lparr>Status := ''retired''\<rparr>))) ''SAT-1'' =
     Some (sat1\<lparr>Status := ''retired''\<rparr>) \<and>
   dom (satellitesData (snd (AddSatellite unlocked_store (sat1\<lparr>Status := ''retired''\<rparr>)))) = {''SAT-1''}"
proof -
  have name: "Name (sat1\<lparr>Status := ''retired''\<rparr>) = ''SAT-1''"
    by (simp add: sat1_def)
  have before: "satellitesData unlocked_store = [''SAT-1'' \<mapsto> sat1]"
    by (simp add: fixtures)
  from put_is_upsert [OF IsUnlocked_unlocked_store, of "sat1\<lparr>Status := ''retired''\<rparr>"]
    IsUnlocked_unlocked_store
  show ?thesis
    by (simp add: name before)
qed

subsection \<open>load\<close>

text \<open>
  C10. Whenever \<^verbatim>\<open>load\<close> returns an error (the passphrase could not be acquired or was
  empty while the file exists, the file could not be read or is too short, the key
  derivation, the decryption or the deserialization failed), it leaves
  \<^verbatim>\<open>passphraseProvided\<close> false and \<^verbatim>\<open>sessionKey\<close> empty, so \<^verbatim>\<open>IsUnlocked\<close> is false.
\<close>

theorem load_failure_locks:
  "load cfg ext s w = (Some err, s', w') \<Longrightarrow>
     \<not> passphraseProvided s' \<and> sessionKey s' = [] \<and> \<not> IsUnlocked s'"
  unfolding load_def Let_def IsUnlocked_def
  by (auto simp: lock_locked split: if_splits prod.splits sum.splits)

theorem load_failure_locks_witness:
  "fst (load test_config test_externals unlocked_store (world_with_file [1, 2, 3])) =
     Some (Errorf ''encrypted datastore file is too short or corrupted (salt+nonce sections missing)'') \<and>
   \<not> IsUnlocked (fst (snd (load test_config test_externals unlocked_store (world_with_file [1, 2, 3]))))"
proof -
  have run: "load test_config test_externals unlocked_store (world_with_file [1, 2, 3]) =
      (Some (Errorf ''encrypted datastore file is too short or corrupted (salt+nonce sections missing)''),
       lock unlocked_store, world_with_file [1, 2, 3])"
    by (simp add: load_def getPassphrase_def syscalls fixtures Let_def)
  from load_failure_locks [OF run] show ?thesis
    by (simp add: run)
qed

text \<open>
  C1. When the datastore file does not exist and \<^verbatim>\<open>getPassphrase\<close> returns a non-empty
  passphrase, \<^verbatim>\<open>load\<close> returns no error, sets \<^verbatim>\<open>passphraseProvided\<close>, empties the
  collection and leaves \<^verbatim>\<open>sessionKey\<close> empty. \<^verbatim>\<open>IsUnlocked\<close> also asks for a
  non-empty session key, so it is false of that store, and \<^verbatim>\<open>AddSatellite\<close> returns
  its "datastore is locked" error.
\<close>

theorem load_new_store_not_unlocked:
  assumes "files w (dataPath s) = None" and "\<not> stat_fault w"
    and "getPassphrase cfg True w = (Inr p, w1)" and "p \<noteq> []"
  shows "load cfg ext s w =
           (None, s\<lparr>passphraseProvided := True, satellitesData := Map.empty, sessionKey := []\<rparr>, w1) \<and>
         \<not> IsUnlocked (fst (snd (load cfg ext s w))) \<and>
         fst (AddSatellite (fst (snd (load cfg ext s w))) sat) =
           Some (Errorf ''datastore is locked. Cannot add/update satellite.'')"
  using assms by (simp add: load_def fileExists_def IsUnlocked_def AddSatellite_def)

theorem load_new_store_not_unlocked_witness:
  "load test_config test_externals locked_store fresh_world =
     (None, locked_store\<lparr>passphraseProvided := True\<rparr>, fresh_world) \<and>
   \<not> IsUnlocked (locked_store\<lparr>passphraseProvided := True\<rparr>) \<and>
   fst (AddSatellite (locked_store\<lparr>passphraseProvided := True\<rparr>) sat1) =
     Some (Errorf ''datastore is locked. Cannot add/update satellite.'')"
proof -
  have absent: "files fresh_world (dataPath locked_store) = None"
    by (simp add: fixtures)
  have stat: "\<not> stat_fault fresh_world"
    by (simp add: fixtures)
  have pass: "getPassphrase test_config True fresh_world = (Inr ''correct-horse'', fresh_world)"
    by (rule getPassphrase_env) (simp_all add: Getenv_def fixtures)
  have ne: "''correct-horse'' \<noteq> []"
    by simp
  have same: "locked_store\<lparr>passphraseProvided := True, satellitesData := Map.empty, sessionKey := []\<rparr> =
      locked_store\<lparr>passphraseProvided := True\<rparr>"
    by (simp add: fixtures)
  from load_new_store_not_unlocked [OF absent stat pass ne, of test_externals sat1]
  show ?thesis
    by (auto simp: same)
qed

text \<open>
  C6. A datastore file shorter than \<^verbatim>\<open>Argon2SaltSize + AESGCMNonceSize\<close> makes
  \<^verbatim>\<open>load\<close> fail, and the outcome is the same whatever the key derivation and the
  cipher are: neither is consulted. When the passphrase was obtained and the file was
  read, the error is the "too short or corrupted" one and the store is locked.
\<close>

theorem load_truncated_file:
  assumes "files w (dataPath s) = Some b"
    and "length b < Argon2SaltSize cfg + AESGCMNonceSize cfg"
  shows "fst (load cfg ext s w) \<noteq> None \<and>
         load cfg ext' s w = load cfg ext s w \<and>
         (\<forall>p w1. getPassphrase cfg False w = (Inr p, w1) \<and> p \<noteq> [] \<and> read_fault w = None \<longrightarrow>
            load cfg ext s w =
              (Some (Errorf ''encrypted datastore file is too short or corrupted (salt+nonce sections missing)''),
               lock s, w1))"
proof -
  obtain r w1 where g: "getPassphrase cfg False w = (r, w1)"
    by (cases "getPassphrase cfg False w")
  from getPassphrase_frame [OF g] assms have f: "files w1 (dataPath s) = Some b" "read_fault w1 = read_fault w"
    by simp_all
  show ?thesis
    using assms g f
    by (auto simp: load_def fileExists_def ReadFile_def split: sum.splits option.splits)
qed

theorem load_truncated_file_witness:
  "files (world_with_file [1, 2, 3]) (dataPath locked_store) = Some [1, 2, 3] \<and>
   length [1, 2, 3 :: byte] < Argon2SaltSize test_config + AESGCMNonceSize test_config \<and>
   load test_config test_externals locked_store (world_with_file [1, 2, 3]) =
     (Some (Errorf ''encrypted datastore file is too short or corrupted (salt+nonce sections missing)''),
      locked_store, world_with_file [1, 2, 3])"
proof -
  have present: "files (world_with_file [1, 2, 3]) (dataPath locked_store) = Some [1, 2, 3]"
    by (simp add: fixtures)
  have short: "length [1, 2, 3 :: byte] < Argon2SaltSize test_config + AESGCMNonceSize test_config"
    by (simp add: fixtures)
  have ok: "read_fault (world_with_file [1, 2, 3]) = None"
    by (simp add: fixtures)
  from load_truncated_file [OF present short, of test_externals test_externals]
    getPassphrase_test [of False "[1, 2, 3]"] ok present short
  show ?thesis
    by (simp add: lock_locked_store)
qed

subsection \<open>Save\<close>

text \<open>
  C4. Take a save that succeeds when \<^verbatim>\<open>os.Rename\<close> works. When the rename fails
  instead, \<^verbatim>\<open>Save\<close> returns the "failed to commit encrypted datastore" error, the
  datastore file holds what it held before the save (as does every file but the temporary
  one), and the temporary file is gone.
\<close>

theorem Save_rename_failure:
  assumes "Save cfg ext s (w\<lparr>rename_fault := None\<rparr>) = (None, s', w')"
  shows "\<exists>w''. Save cfg ext s (w\<lparr>rename_fault := Some e\<rparr>) =
           (Some (Errorf (''failed to commit encrypted datastore from '' @ (dataPath s @ ''.tmp'') @
                    '' to '' @ dataPath s @ '': '' @ Error e)), s', w'') \<and>
         files w'' (dataPath s) = files w (dataPath s) \<and>
         files w'' (dataPath s @ ''.tmp'') = None \<and>
         (\<forall>path. path \<noteq> dataPath s @ ''.tmp'' \<longrightarrow> files w'' path = files w path)"
proof -
  obtain r s1 w2 where sp: "Save_passphrase cfg s w = (r, s1, w2)"
    by (cases "Save_passphrase cfg s w")
  from Save_passphrase_frame [OF sp] obtain t where
    w2: "w2 = w\<lparr>tty := t\<rparr>" and s1: "dataPath s1 = dataPath s"
    by blast
  have sp0: "Save_passphrase cfg s (w\<lparr>rename_fault := x\<rparr>) = (r, s1, w2\<lparr>rename_fault := x\<rparr>)" for x
    by (simp add: Save_passphrase_rename_fault sp)
  show ?thesis
    using assms
    by (auto simp: Save_def sp0 w2 s1 ReadFull_def WriteFile_def Rename_def Remove_def Let_def
        split: sum.splits prod.splits option.splits if_splits write_outcome.splits)
qed

theorem Save_rename_failure_witness:
  "fst (Save test_config test_externals unlocked_store
          (world_with_file [1, 2, 3]\<lparr>rename_fault := Some (Errorf ''permission denied'')\<rparr>)) =
     Some (Errorf ''failed to commit encrypted datastore from /opt/satcli/satellites.enc.tmp to /opt/satcli/satellites.enc: permission denied'') \<and>
   files (snd (snd (Save test_config test_externals unlocked_store
          (world_with_file [1, 2, 3]\<lparr>rename_fault := Some (Errorf ''permission denied'')\<rparr>))))
     ''/opt/satcli/satellites.enc'' = Some [1, 2, 3] \<and>
   files (snd (snd (Save test_config test_externals unlocked_store
          (world_with_file [1, 2, 3]\<lparr>rename_fault := Some (Errorf ''permission denied'')\<rparr>))))
     ''/opt/satcli/satellites.enc.tmp'' = None"
proof -
  obtain s' w' where ok: "Save test_config test_externals unlocked_store
      (world_with_file [1, 2, 3]\<lparr>rename_fault := None\<rparr>) = (None, s', w')"
    using Save_test_ok
    by (cases "Save test_config test_externals unlocked_store
          (world_with_file [1, 2, 3]\<lparr>rename_fault := None\<rparr>)") auto
  have path: "dataPath unlocked_store = ''/opt/satcli/satellites.enc''"
    by (simp add: fixtures)
  have old: "files (world_with_file [1, 2, 3]) ''/opt/satcli/satellites.enc'' = Some [1, 2, 3]"
    by (simp add: fixtures)
  from Save_rename_failure [OF ok, of "Errorf ''permission denied''"] show ?thesis
    by (auto simp: path old Errorf_def)
qed

text \<open>
  C5. A save that succeeds has taken the next \<^verbatim>\<open>Argon2SaltSize\<close> bytes of the random
  source as its salt, derived its key from the passphrase it acquired and that salt,
  encrypted the serialised collection under that key and written salt and ciphertext to
  the datastore file; the session key it leaves is that key. The session key held before
  plays no part: the save gives the same result from any other.
\<close>

theorem Save_fresh_salt_and_key:
  assumes "Save cfg ext s w = (None, s', w')"
  shows "(\<exists>P wa plaintext nonceAndCiphertext.
            getPassphrase cfg False
              (if passphraseProvided s then w else snd (getPassphrase cfg True w)) = (Inr P, wa) \<and>
            P \<noteq> [] \<and>
            Argon2SaltSize cfg \<le> length (entropy w) \<and>
            DeriveKeyWithArgon2id ext P (take (Argon2SaltSize cfg) (entropy w)) = Inr (sessionKey s') \<and>
            MarshalIndent ext (satellitesData s) = Inr plaintext \<and>
            Encrypt ext plaintext (sessionKey s') (drop (Argon2SaltSize cfg) (entropy w)) =
              (Inr nonceAndCiphertext, entropy w') \<and>
            files w' (dataPath s) = Some (take (Argon2SaltSize cfg) (entropy w) @ nonceAndCiphertext)) \<and>
         Save cfg ext (s\<lparr>sessionKey := k\<rparr>) w = (None, s', w')"
proof -
  obtain r s1 w2 where sp: "Save_passphrase cfg s w = (r, s1, w2)"
    by (cases "Save_passphrase cfg s w")
  with assms obtain P where r: "r = Inr P"
    by (cases r) (auto simp: Save_def)
  from Save_passphrase_frame [OF sp] obtain t where
    w2: "w2 = w\<lparr>tty := t\<rparr>" and s1: "dataPath s1 = dataPath s" "satellitesData s1 = satellitesData s"
    by blast
  note ok = Save_passphrase_ok [OF sp [unfolded r]]
  have spk: "Save_passphrase cfg (s\<lparr>sessionKey := k\<rparr>) w = (Inr P, s1\<lparr>sessionKey := k\<rparr>, w2)"
    by (simp add: Save_passphrase_sessionKey sp r)
  have "Save cfg ext (s\<lparr>sessionKey := k\<rparr>) w = (None, s', w')"
    using assms
    by (auto simp: Save_def sp r spk Let_def split: sum.splits prod.splits option.splits)
  moreover have "\<exists>plaintext nonceAndCiphertext.
            Argon2SaltSize cfg \<le> length (entropy w) \<and>
            DeriveKeyWithArgon2id ext P (take (Argon2SaltSize cfg) (entropy w)) = Inr (sessionKey s') \<and>
            MarshalIndent ext (satellitesData s) = Inr plaintext \<and>
            Encrypt ext plaintext (sessionKey s') (drop (Argon2SaltSize cfg) (entropy w)) =
              (Inr nonceAndCiphertext, entropy w') \<and>
            files w' (dataPath s) = Some (take (Argon2SaltSize cfg) (entropy w) @ nonceAndCiphertext)"
    using assms
    by (auto simp: Save_def sp r w2 s1 ReadFull_def WriteFile_def Rename_def Let_def
        split: sum.splits prod.splits option.splits if_splits write_outcome.splits)
  ultimately show ?thesis
    using ok by blast
qed

theorem Save_fresh_salt_and_key_witness:
  "fst (Save test_config test_externals unlocked_store fresh_world) = None \<and>
   sessionKey unlocked_store = [7, 7, 7] \<and>
   sessionKey (fst (snd (Save test_config test_externals unlocked_store fresh_world))) =
     [13, 1, 2, 3, 4, 5, 6, 7, 8, 9, 10, 11, 12, 13, 14, 15, 16] \<and>
   files (snd (snd (Save test_config test_externals unlocked_store fresh_world)))
     ''/opt/satcli/satellites.enc'' =
     Some ([1, 2, 3, 4, 5, 6, 7, 8, 9, 10, 11, 12, 13, 14, 15, 16] @
           [17, 18, 19, 20, 21, 22, 23, 24, 25, 26, 27, 28] @
           [13, 1, 2, 3, 4, 5, 6, 7, 8, 9, 10, 11, 12, 13, 14, 15, 16] @ [1])"
proof -
  have run: "fst (Save test_config test_externals unlocked_store fresh_world) = None"
    by (simp add: Save_def Save_passphrase_def getPassphrase_def syscalls fixtures Let_def)
  then obtain s' w' where ok: "Save test_config test_externals unlocked_store fresh_world = (None, s', w')"
    by (cases "Save test_config test_externals unlocked_store fresh_world") auto
  have pass: "getPassphrase test_config False
      (if passphraseProvided unlocked_store then fresh_world
       else snd (getPassphrase test_config True fresh_world)) = (Inr ''correct-horse'', fresh_world)"
    by (simp add: getPassphrase_def Getenv_def fixtures Let_def)
  have salt: "take (Argon2SaltSize test_config) (entropy fresh_world) =
      [1, 2, 3, 4, 5, 6, 7, 8, 9, 10, 11, 12, 13, 14, 15, 16]"
    "drop (Argon2SaltSize test_config) (entropy fresh_world) =
      [17, 18, 19, 20, 21, 22, 23, 24, 25, 26, 27, 28, 29, 30]"
    by (simp_all add: fixtures)
  have data: "MarshalIndent test_externals (satellitesData unlocked_store) = Inr [1]"
    by (simp add: fixtures)
  have kdf: "DeriveKeyWithArgon2id test_externals ''correct-horse'' x = Inr (13 # x)" for x
    by (simp add: fixtures)
  have enc: "Encrypt test_externals [1] k
      [17, 18, 19, 20, 21, 22, 23, 24, 25, 26, 27, 28, 29, 30] =
      (Inr ([17, 18, 19, 20, 21, 22, 23, 24, 25, 26, 27, 28] @ k @ [1]), [29, 30])" for k
    by (simp add: fixtures)
  have path: "dataPath unlocked_store = ''/opt/satcli/satellites.enc''"
    by (simp add: fixtures)
  have old: "sessionKey unlocked_store = [7, 7, 7]"
    by (simp add: fixtures)
  from Save_fresh_salt_and_key [OF ok, of "[]"] show ?thesis
    by (auto simp: ok pass salt data kdf enc path old)
qed

text \<open>
  C2 does not hold of every collection: \<^verbatim>\<open>Save\<close> returns the error of
  \<^verbatim>\<open>json.MarshalIndent\<close> when the collection cannot be serialised, as for a record whose
  altitude is NaN, although the passphrase was acquired and nothing else fails.
\<close>

theorem save_fails_on_NaN:
  "Save_passphrase test_config nan_store fresh_world = (Inr ''correct-horse'', nan_store, fresh_world) \<and>
   Save test_config test_externals nan_store fresh_world =
     (Some (Errorf ''failed to marshal satellite data for encryption: json: unsupported value: NaN''),
      nan_store, fresh_world)"
proof -
  have env: "Getenv fresh_world (PassphraseEnvVar test_config) = ''correct-horse''"
    by (simp add: Getenv_def fixtures)
  have marked: "nan_store\<lparr>passphraseProvided := True\<rparr> = nan_store"
    by (simp add: nan_store_def fixtures)
  have acquire: "Save_passphrase test_config nan_store fresh_world =
      (Inr ''correct-horse'', nan_store, fresh_world)"
    using Save_passphrase_env [OF env, of nan_store] by (simp add: marked)
  have refused: "MarshalIndent test_externals (satellitesData nan_store) =
      Inl (Errorf ''json: unsupported value: NaN'')"
    by (simp add: nan_store_def test_externals_def unsupported_floats_NaN)
  show ?thesis
    by (simp add: Save_def acquire refused Errorf_def)
qed

text \<open>
  C2, as the code has it. Let \<open>P\<close> be the passphrase a save acquires, let the random
  source hold enough bytes for salt and nonce, and let writing and renaming work. Let the
  collection be one that \<^verbatim>\<open>json.MarshalIndent\<close> serialises and \<^verbatim>\<open>json.Unmarshal\<close>
  reads back unchanged. Assume of \<^verbatim>\<open>internal/crypto\<close> that the key derivation succeeds on
  a salt of the right size and that, under a key derived from \<open>P\<close>, \<^verbatim>\<open>crypto.Encrypt\<close>
  of the serialised collection succeeds with an output at least a nonce long which
  \<^verbatim>\<open>crypto.Decrypt\<close> turns back into the plaintext. Then \<^verbatim>\<open>Save\<close> succeeds, and every
  later \<^verbatim>\<open>load\<close> of the file it wrote that acquires the same \<open>P\<close> succeeds and holds
  the saved collection, whatever salt and nonce the random source delivered.
\<close>

theorem save_load_roundtrip:
  assumes pass: "Save_passphrase cfg s w = (Inr P, s1, w2)"
    and rnd: "Argon2SaltSize cfg + AESGCMNonceSize cfg \<le> length (entropy w)"
    and io: "write_fault w = WriteOk" "rename_fault w = None"
    and kdf: "\<forall>salt. length salt = Argon2SaltSize cfg \<longrightarrow>
                (\<exists>key. DeriveKeyWithArgon2id ext P salt = Inr key)"
    and aead: "\<forall>salt key plaintext r.
                length salt = Argon2SaltSize cfg \<and> DeriveKeyWithArgon2id ext P salt = Inr key \<and>
                MarshalIndent ext (satellitesData s) = Inr plaintext \<and>
                AESGCMNonceSize cfg \<le> length r \<longrightarrow>
                (\<exists>ct rest. Encrypt ext plaintext key r = (Inr ct, rest) \<and>
                   AESGCMNonceSize cfg \<le> length ct \<and> Decrypt ext ct key = Inr plaintext)"
    and codec: "\<exists>plaintext. MarshalIndent ext (satellitesData s) = Inr plaintext \<and>
                  Unmarshal ext plaintext = Inr (satellitesData s)"
  shows "\<exists>s' w'. Save cfg ext s w = (None, s', w') \<and>
           (\<forall>sl wl wl1. dataPath sl = dataPath s \<and> files wl (dataPath s) = files w' (dataPath s) \<and>
                read_fault wl = None \<and> getPassphrase cfg False wl = (Inr P, wl1) \<longrightarrow>
              load cfg ext sl wl =
                (None,
                 sl\<lparr>passphraseProvided := True, sessionKey := sessionKey s',
                    satellitesData := satellitesData s\<rparr>,
                 wl1))"
proof -
  let ?n = "Argon2SaltSize cfg"
  let ?salt = "take ?n (entropy w)"
  let ?tmp = "dataPath s @ ''.tmp''"
  from Save_passphrase_ok [OF pass] have P: "P \<noteq> []" and s1: "s1 = s\<lparr>passphraseProvided := True\<rparr>"
    by simp_all
  from Save_passphrase_frame [OF pass] obtain t where w2: "w2 = w\<lparr>tty := t\<rparr>"
    by blast
  from codec obtain plaintext where
    enc: "MarshalIndent ext (satellitesData s) = Inr plaintext" and
    dec: "Unmarshal ext plaintext = Inr (satellitesData s)"
    by blast
  from rnd have salt: "length ?salt = ?n"
    by simp
  with kdf obtain key where key: "DeriveKeyWithArgon2id ext P ?salt = Inr key"
    by blast
  from rnd have "AESGCMNonceSize cfg \<le> length (drop ?n (entropy w))"
    by simp
  with aead salt key enc obtain ct rest where
    ct: "Encrypt ext plaintext key (drop ?n (entropy w)) = (Inr ct, rest)" and
    len: "AESGCMNonceSize cfg \<le> length ct" and
    inv: "Decrypt ext ct key = Inr plaintext"
    by blast
  let ?s' = "s\<lparr>passphraseProvided := True, sessionKey := key\<rparr>"
  let ?w' = "w\<lparr>tty := t, entropy := rest,
               files := (files w)(?tmp := None, dataPath s \<mapsto> ?salt @ ct)\<rparr>"
  have full: "ReadFull (w\<lparr>tty := t\<rparr>) ?n =
      (Inr ?salt, w\<lparr>tty := t, entropy := drop ?n (entropy w)\<rparr>)"
    using rnd by (simp add: ReadFull_def)
  have save: "Save cfg ext s w = (None, ?s', ?w')"
    by (simp add: Save_def pass s1 enc full key ct io WriteFile_def Rename_def Let_def w2)
  have "load cfg ext sl wl =
      (None, sl\<lparr>passphraseProvided := True, sessionKey := key, satellitesData := satellitesData s\<rparr>, wl1)"
    if sl: "dataPath sl = dataPath s" and present: "files wl (dataPath s) = files ?w' (dataPath s)"
      and ok: "read_fault wl = None" and again: "getPassphrase cfg False wl = (Inr P, wl1)"
    for sl wl wl1
  proof -
    from present have content: "files wl (dataPath sl) = Some (?salt @ ct)"
      by (simp add: sl)
    from getPassphrase_frame [OF again] content ok
    have content1: "files wl1 (dataPath sl) = Some (?salt @ ct)" and ok1: "read_fault wl1 = None"
      by simp_all
    have long: "\<not> length (?salt @ ct) < ?n + AESGCMNonceSize cfg"
      using salt len by simp
    have parts: "take ?n (?salt @ ct) = ?salt" "drop ?n (?salt @ ct) = ct"
      using salt by simp_all
    show ?thesis
      unfolding load_def Let_def
      by (simp only: fileExists_def content content1 again ReadFile_def ok1
          long parts key inv dec P option.case sum.case prod.case if_True if_False
          not_True_eq_False simp_thms)
  qed
  with save show ?thesis
    by simp
qed

theorem save_load_roundtrip_witness:
  "\<exists>s' w'. Save test_config test_externals unlocked_store fresh_world = (None, s', w') \<and>
     load test_config test_externals locked_store (fresh_world\<lparr>files := files w'\<rparr>) =
       (None,
        locked_store\<lparr>passphraseProvided := True, sessionKey := sessionKey s',
          satellitesData := [''SAT-1'' \<mapsto> sat1]\<rparr>,
        fresh_world\<lparr>files := files w'\<rparr>)"
proof -
  have pass: "Getenv fresh_world (PassphraseEnvVar test_config) = ''correct-horse''"
    "''correct-horse'' \<noteq> []"
    by (simp_all add: Getenv_def fixtures)
  have rnd: "Argon2SaltSize test_config + AESGCMNonceSize test_config \<le> length (entropy fresh_world)"
    by (simp add: fixtures)
  have io: "write_fault fresh_world = WriteOk" "rename_fault fresh_world = None"
    by (simp_all add: fixtures)
  have kdf: "\<forall>salt. length salt = Argon2SaltSize test_config \<longrightarrow>
      (\<exists>key. DeriveKeyWithArgon2id test_externals ''correct-horse'' salt = Inr key)"
    by (simp add: fixtures)
  have aead: "\<forall>salt key plaintext r.
      length salt = Argon2SaltSize test_config \<and>
      DeriveKeyWithArgon2id test_externals ''correct-horse'' salt = Inr key \<and>
      MarshalIndent test_externals (satellitesData unlocked_store) = Inr plaintext \<and>
      AESGCMNonceSize test_config \<le> length r \<longrightarrow>
      (\<exists>ct rest. Encrypt test_externals plaintext key r = (Inr ct, rest) \<and>
         AESGCMNonceSize test_config \<le> length ct \<and> Decrypt test_externals ct key = Inr plaintext)"
    by (simp add: fixtures)
  have codec: "\<exists>plaintext. MarshalIndent test_externals (satellitesData unlocked_store) = Inr plaintext \<and>
      Unmarshal test_externals plaintext = Inr (satellitesData unlocked_store)"
    by (simp add: fixtures)
  have data: "satellitesData unlocked_store = [''SAT-1'' \<mapsto> sat1]"
    by (simp add: fixtures)
  have path: "dataPath locked_store = dataPath unlocked_store"
    by (simp add: fixtures)
  have later: "read_fault (fresh_world\<lparr>files := f\<rparr>) = None"
    "getPassphrase test_config False (fresh_world\<lparr>files := f\<rparr>) =
       (Inr ''correct-horse'', fresh_world\<lparr>files := f\<rparr>)" for f
    by (simp_all add: getPassphrase_def Getenv_def fixtures Let_def)
  note acquire = Save_passphrase_env [OF pass, of unlocked_store]
  from save_load_roundtrip [OF acquire rnd io kdf aead codec]
  obtain s' w' where
    save: "Save test_config test_externals unlocked_store fresh_world = (None, s', w')" and
    reload: "\<And>sl wl wl1. dataPath sl = dataPath unlocked_store \<Longrightarrow>
      files wl (dataPath unlocked_store) = files w' (dataPath unlocked_store) \<Longrightarrow>
      read_fault wl = None \<Longrightarrow> getPassphrase test_config False wl = (Inr ''correct-horse'', wl1) \<Longrightarrow>
      load test_config test_externals sl wl =
        (None, sl\<lparr>passphraseProvided := True, sessionKey := sessionKey s',
           satellitesData := satellitesData unlocked_store\<rparr>, wl1)"
    by blast
  from reload [OF path _ later, of "files w'"] have
    "load test_config test_externals locked_store (fresh_world\<lparr>files := files w'\<rparr>) =
       (None,
        locked_store\<lparr>passphraseProvided := True, sessionKey := sessionKey s',
          satellitesData := [''SAT-1'' \<mapsto> sat1]\<rparr>,
        fresh_world\<lparr>files := files w'\<rparr>)"
    by (simp add: data)
  with save show ?thesis
    by blast
qed

subsection \<open>Init\<close>

text \<open>
  C3 does not hold of a file that is too short: the error of \<^verbatim>\<open>load\<close> reaches the
  caller of \<^verbatim>\<open>Init\<close>, and the caller of \<^verbatim>\<open>PersistentPreRunE\<close>, since its message
  has neither "passphrase" nor "decrypt" in it.
\<close>

theorem Init_truncated_file_is_fatal:
  "fst (Init test_config test_externals initial_store (world_with_file [1, 2, 3])) =
     Some (Errorf ''encrypted datastore file is too short or corrupted (salt+nonce sections missing)'') \<and>
   fst (PersistentPreRunE False test_config test_externals initial_store (world_with_file [1, 2, 3])) =
     Some (Errorf ''encrypted datastore file is too short or corrupted (salt+nonce sections missing)'')"
proof -
  have path: "initial_store\<lparr>dataPath := filepath_Join test_externals
        (filepath_Dir test_externals ''/opt/satcli/satcli'') (DataFileName test_config)\<rparr> = locked_store"
    by (simp add: fixtures)
  have exe: "os_Executable (world_with_file [1, 2, 3]) = Inr ''/opt/satcli/satcli''"
    by (simp add: fixtures)
  have pass: "getPassphrase test_config False (world_with_file [1, 2, 3]) =
      (Inr ''correct-horse'', world_with_file [1, 2, 3])"
    by (rule getPassphrase_env) (simp_all add: Getenv_def fixtures)
  have run: "load test_config test_externals locked_store (world_with_file [1, 2, 3]) =
      (Some (Errorf ''encrypted datastore file is too short or corrupted (salt+nonce sections missing)''),
       lock locked_store, world_with_file [1, 2, 3])"
    by (rule load_too_short [where b = "[1, 2, 3]", OF _ _ _ pass]) (simp_all add: fixtures)
  have init: "Init test_config test_externals initial_store (world_with_file [1, 2, 3]) =
      (Some (Errorf ''encrypted datastore file is too short or corrupted (salt+nonce sections missing)''),
       lock locked_store, world_with_file [1, 2, 3])"
    by (simp add: Init_def exe path run Errorf_def too_short_message)
  show ?thesis
    by (simp add: PersistentPreRunE_def init Errorf_def too_short_message)
qed

text \<open>
  C3, as the code has it. Of the two kinds of corrupt file, the one that decrypts to a
  payload \<^verbatim>\<open>json.Unmarshal\<close> rejects is not fatal: \<^verbatim>\<open>Init\<close> returns no error and
  leaves the store locked, and so does \<^verbatim>\<open>PersistentPreRunE\<close>. For a file that is too
  short \<^verbatim>\<open>Init\<close> returns the error of \<^verbatim>\<open>load\<close>, and \<^verbatim>\<open>PersistentPreRunE\<close>
  returns it too.
\<close>

theorem Init_corrupt_file:
  assumes "os_Executable w = Inr exePath"
    and "files w (filepath_Join ext (filepath_Dir ext exePath) (DataFileName cfg)) = Some b"
    and "read_fault w = None"
    and "getPassphrase cfg False w = (Inr p, w1)" and "p \<noteq> []"
  shows "(length b < Argon2SaltSize cfg + AESGCMNonceSize cfg \<longrightarrow>
            Init cfg ext s w =
              (Some (Errorf ''encrypted datastore file is too short or corrupted (salt+nonce sections missing)''),
               lock (s\<lparr>dataPath := filepath_Join ext (filepath_Dir ext exePath) (DataFileName cfg)\<rparr>), w1) \<and>
            PersistentPreRunE False cfg ext s w = Init cfg ext s w) \<and>
         (Argon2SaltSize cfg + AESGCMNonceSize cfg \<le> length b \<and>
          DeriveKeyWithArgon2id ext p (take (Argon2SaltSize cfg) b) = Inr key \<and>
          Decrypt ext (drop (Argon2SaltSize cfg) b) key = Inr plaintext \<and>
          Unmarshal ext plaintext = Inl err \<longrightarrow>
            Init cfg ext s w =
              (None, lock (s\<lparr>dataPath := filepath_Join ext (filepath_Dir ext exePath) (DataFileName cfg)\<rparr>), w1) \<and>
            PersistentPreRunE False cfg ext s w = Init cfg ext s w)"
proof (intro conjI impI)
  let ?s0 = "s\<lparr>dataPath := filepath_Join ext (filepath_Dir ext exePath) (DataFileName cfg)\<rparr>"
  have present: "files w (dataPath ?s0) = Some b"
    using assms(2) by simp
  {
    assume short: "length b < Argon2SaltSize cfg + AESGCMNonceSize cfg"
    note run = load_too_short [OF present short assms(3,4,5), of ext]
    show init: "Init cfg ext s w =
        (Some (Errorf ''encrypted datastore file is too short or corrupted (salt+nonce sections missing)''),
         lock ?s0, w1)"
      by (simp add: Init_def assms(1) run Errorf_def too_short_message)
    show "PersistentPreRunE False cfg ext s w = Init cfg ext s w"
      by (simp add: PersistentPreRunE_def init Errorf_def too_short_message)
  }
  {
    assume bad: "Argon2SaltSize cfg + AESGCMNonceSize cfg \<le> length b \<and>
          DeriveKeyWithArgon2id ext p (take (Argon2SaltSize cfg) b) = Inr key \<and>
          Decrypt ext (drop (Argon2SaltSize cfg) b) key = Inr plaintext \<and>
          Unmarshal ext plaintext = Inl err"
    then have run: "load cfg ext ?s0 w =
        (Some (Errorf (''failed to unmarshal decrypted satellite data: '' @ Error err @
                 '' (data may be corrupt)'')), lock ?s0, w1)"
      using load_unmarshal_failure [OF present _ assms(3,4,5), of ext key plaintext err] by simp
    show init: "Init cfg ext s w = (None, lock ?s0, w1)"
      using unmarshal_message [of "Error err @ '' (data may be corrupt)''"]
      by (simp add: Init_def assms(1) run Errorf_def lock_lock del: Contains.simps)
    show "PersistentPreRunE False cfg ext s w = Init cfg ext s w"
      by (simp add: PersistentPreRunE_def init)
  }
qed

theorem Init_corrupt_file_witness:
  "Init test_config test_externals initial_store (world_with_file [1, 2, 3]) =
     (Some (Errorf ''encrypted datastore file is too short or corrupted (salt+nonce sections missing)''),
      locked_store, world_with_file [1, 2, 3]) \<and>
   Init test_config test_externals initial_store (world_with_file undecodable_file) =
     (None, locked_store, world_with_file undecodable_file) \<and>
   PersistentPreRunE False test_config test_externals initial_store (world_with_file undecodable_file) =
     (None, locked_store, world_with_file undecodable_file)"
proof -
  have exe: "os_Executable (world_with_file b) = Inr ''/opt/satcli/satcli''" for b
    by (simp add: fixtures)
  have present: "files (world_with_file b) (filepath_Join test_externals
      (filepath_Dir test_externals ''/opt/satcli/satcli'') (DataFileName test_config)) = Some b" for b
    by (simp add: fixtures)
  have ok: "read_fault (world_with_file b) = None" for b
    by (simp add: fixtures)
  have ne: "''correct-horse'' \<noteq> []"
    by simp
  have short: "length [1, 2, 3 :: byte] < Argon2SaltSize test_config + AESGCMNonceSize test_config"
    by (simp add: fixtures)
  have long: "Argon2SaltSize test_config + AESGCMNonceSize test_config \<le> length undecodable_file"
    by (simp add: fixtures undecodable_file_def)
  have key: "DeriveKeyWithArgon2id test_externals ''correct-horse''
      (take (Argon2SaltSize test_config) undecodable_file) =
      Inr [13, 1, 2, 3, 4, 5, 6, 7, 8, 9, 10, 11, 12, 13, 14, 15, 16]"
    by (simp add: fixtures undecodable_file_def)
  have dec: "Decrypt test_externals (drop (Argon2SaltSize test_config) undecodable_file)
      [13, 1, 2, 3, 4, 5, 6, 7, 8, 9, 10, 11, 12, 13, 14, 15, 16] = Inr [9]"
    by (simp add: fixtures undecodable_file_def)
  have bad: "Unmarshal test_externals [9] = Inl (Errorf ''invalid character'')"
    by (simp add: fixtures)
  from Init_corrupt_file [where s = initial_store and b = "[1, 2, 3]", OF exe present ok getPassphrase_test ne] short
  have one: "Init test_config test_externals initial_store (world_with_file [1, 2, 3]) =
     (Some (Errorf ''encrypted datastore file is too short or corrupted (salt+nonce sections missing)''),
      locked_store, world_with_file [1, 2, 3])"
    by (simp add: test_dataPath lock_locked_store)
  from Init_corrupt_file [where s = initial_store and b = undecodable_file, OF exe present ok getPassphrase_test ne]
    long key dec bad
  have two: "Init test_config test_externals initial_store (world_with_file undecodable_file) =
       (None, locked_store, world_with_file undecodable_file) \<and>
     PersistentPreRunE False test_config test_externals initial_store (world_with_file undecodable_file) =
       (None, locked_store, world_with_file undecodable_file)"
    by (auto simp: test_dataPath lock_locked_store)
  from one two show ?thesis
    by simp
qed

end
